theory Spec2Isabelle
  imports Complex_Main "HOL-Library.AList"
begin

section \<open>The synthetic record generator of \<open>taxcalc/validation/csv_in.py\<close>\<close>

text \<open>
  A shallow embedding of \<open>randomize_data\<close>, \<open>constrain_data\<close>, \<open>main\<close> and the
  argument checks of the script.

  Conventions of the embedding.
  \<^item> A pandas column is a \<open>series\<close>: its dtype (\<open>int64\<close> or \<open>float64\<close>) and its values.
    A \<open>float64\<close> value is idealised as the rational number it denotes, and float
    arithmetic as exact arithmetic (no NaN, no infinity, no rounding of products).
  \<^item> \<open>int64\<close> addition wraps around (\<open>wrap64\<close>), as numpy's does.
  \<^item> Casting a float that lies outside the \<open>int64\<close> range with \<open>astype\<close> has no defined
    result in numpy; the embedding makes it the outcome \<open>CastOverflow\<close>.
  \<^item> An exception is a value of type \<open>exn\<close>; a function that can raise returns
    \<open>exn + 'a\<close>.
  \<^item> The pseudo-random generator is a parameter: \<open>gauss seed k\<close> is the \<open>k\<close>-th standard
    normal deviate that numpy's generator yields after \<open>np.random.seed(seed)\<close>, and
    \<open>choice seed n k\<close> are the \<open>k\<close> positions that \<open>DataFrame.sample\<close> draws from \<open>n\<close> rows.
  \<^item> \<open>DEBUG\<close> and \<open>Records.USABLE_READ_VARS\<close> are fields of a configuration value;
    the tracing output (\<open>TRACE\<close>) is left out.
  \<^item> \<open>DROP_VARS\<close> is a Python set, and the order in which \<open>main\<close> visits it is not
    fixed by the language; the embedding visits it in the order in which it is written,
    and the lemmas about \<open>drop_loop\<close> hold for every order.
  \<^item> A frame read from a file has columns of distinct names and of one length
    (\<open>wf_frame\<close>).
\<close>

subsection \<open>Columns and data frames\<close>

datatype series = Int64 "int list" | Float64 "rat list"

datatype exn = KeyError string | ValueError | CastOverflow

record dataframe =
  nrows :: nat
  columns :: "(string \<times> series) list"

record config =
  DEBUG :: bool
  USABLE_READ_VARS :: "string set"

fun series_size :: "series \<Rightarrow> nat" where
  "series_size (Int64 xs) = length xs"
| "series_size (Float64 xs) = length xs"

text \<open>The numeric value of row \<open>i\<close> of a column.\<close>

fun cell :: "series \<Rightarrow> nat \<Rightarrow> rat" where
  "cell (Int64 xs) i = of_int (xs ! i)"
| "cell (Float64 xs) i = xs ! i"

definition wf_frame :: "dataframe \<Rightarrow> bool" where
  "wf_frame xdf \<longleftrightarrow>
     distinct (map fst (columns xdf)) \<and>
     list_all (\<lambda>p. series_size (snd p) = nrows xdf) (columns xdf)"

text \<open>\<open>xdf[name]\<close>, \<open>xdf[name] = s\<close>, \<open>list(xdf)\<close> and \<open>xdf.drop(name, axis=1)\<close>.\<close>

definition getitem :: "dataframe \<Rightarrow> string \<Rightarrow> exn + series" where
  "getitem xdf name =
     (case map_of (columns xdf) name of None \<Rightarrow> Inl (KeyError name) | Some s \<Rightarrow> Inr s)"

definition setitem :: "dataframe \<Rightarrow> string \<Rightarrow> series \<Rightarrow> dataframe" where
  "setitem xdf name s = xdf\<lparr>columns := AList.update name s (columns xdf)\<rparr>"

definition names :: "dataframe \<Rightarrow> string list" where
  "names xdf = map fst (columns xdf)"

definition drop_column :: "dataframe \<Rightarrow> string \<Rightarrow> exn + dataframe" where
  "drop_column xdf name =
     (if name \<in> set (names xdf)
      then Inr (xdf\<lparr>columns := AList.delete name (columns xdf)\<rparr>)
      else Inl (KeyError name))"

subsection \<open>Numeric primitives\<close>

text \<open>\<open>numpy.round\<close> rounds to the nearest integer, a tie to the even neighbour.\<close>

definition np_round :: "rat \<Rightarrow> int" where
  "np_round x =
     (let f = \<lfloor>x\<rfloor>; d = x - of_int f
      in if d < 1 / 2 then f
         else if 1 / 2 < d then f + 1
         else if even f then f else f + 1)"

definition trunc :: "rat \<Rightarrow> int" where
  "trunc x = (if 0 \<le> x then \<lfloor>x\<rfloor> else \<lceil>x\<rceil>)"

definition in_int64 :: "int \<Rightarrow> bool" where
  "in_int64 n \<longleftrightarrow> - (2 ^ 63) \<le> n \<and> n < 2 ^ 63"

definition wrap64 :: "int \<Rightarrow> int" where
  "wrap64 n = (n + 2 ^ 63) mod 2 ^ 64 - 2 ^ 63"

text \<open>\<open>s.round(decimals=0)\<close> keeps the dtype; \<open>s.astype(np.int64)\<close> truncates towards zero.\<close>

definition float_round :: "rat list \<Rightarrow> rat list" where
  "float_round xs = map (\<lambda>x. of_int (np_round x)) xs"

fun series_round :: "series \<Rightarrow> series" where
  "series_round (Int64 xs) = Int64 xs"
| "series_round (Float64 xs) = Float64 (float_round xs)"

fun astype_int64 :: "series \<Rightarrow> exn + int list" where
  "astype_int64 (Int64 xs) = Inr xs"
| "astype_int64 (Float64 xs) =
     (if list_all (\<lambda>x. in_int64 (trunc x)) xs then Inr (map trunc xs) else Inl CastOverflow)"

text \<open>\<open>oldint.min() < 0\<close>: the minimum of an empty column is NaN, and the test is false.\<close>

fun series_min :: "int list \<Rightarrow> int option" where
  "series_min [] = None"
| "series_min (x # xs) = (case series_min xs of None \<Rightarrow> Some x | Some m \<Rightarrow> Some (min x m))"

definition min_negative :: "int list \<Rightarrow> bool" where
  "min_negative oldint = (case series_min oldint of None \<Rightarrow> False | Some m \<Rightarrow> m < 0)"

definition clip_lower0 :: "int list \<Rightarrow> int list" where
  "clip_lower0 raw = map (max 0) raw"

subsection \<open>The random-number generator\<close>

text \<open>
  \<open>np.random.normal(loc, scale, n)\<close> at position \<open>pos\<close> of the stream \<open>z\<close> of standard
  normal deviates: the next \<open>n\<close> deviates, scaled and shifted.
\<close>

definition normal :: "(nat \<Rightarrow> rat) \<Rightarrow> nat \<Rightarrow> rat \<Rightarrow> rat \<Rightarrow> nat \<Rightarrow> rat list" where
  "normal z pos loc scale n = map (\<lambda>k. loc + scale * z (pos + k)) [0..<n]"

subsection \<open>Configuration constants\<close>

definition MAX_YEAR :: int where "MAX_YEAR = 2023"
definition MAX_SEED :: int where "MAX_SEED = 999999999"
definition MAX_SIZE :: int where "MAX_SIZE = 100000"

definition DROP_VARS :: "config \<Rightarrow> string list" where
  "DROP_VARS cfg =
     (if DEBUG cfg then [''filer'']
      else [''filer'', ''s006'', ''cmbtp'', ''nu05'', ''nu13'', ''elderly_dependent'',
            ''e09700'', ''e09800'', ''e09900'', ''e11200''])"

definition SKIP_VARS :: "config \<Rightarrow> string set" where
  "SKIP_VARS cfg =
     (if DEBUG cfg then USABLE_READ_VARS cfg
      else {''RECID'', ''MARS'', ''DSI'', ''MIDR'', ''FLPDYR'', ''age_head'', ''age_spouse'',
            ''XTOT'', ''EIC'', ''n24'', ''f2441'', ''f6251''})"

definition ANNUAL_DRIFT :: rat where "ANNUAL_DRIFT = 3 / 100"
definition NORM_STD_DEV :: rat where "NORM_STD_DEV = 1 / 4"

subsection \<open>\<open>randomize_data\<close>\<close>

text \<open>
  The body of the loop for one column (lines 82 to 92), given the draws \<open>rfactor\<close>:
  \<open>oldint * rfactor\<close> and \<open>oldint + addon.round(decimals=0)\<close> are float columns.
\<close>

definition randomize_series :: "rat list \<Rightarrow> series \<Rightarrow> exn + series" where
  "randomize_series rfactor old =
     (case astype_int64 (series_round old) of
        Inl e \<Rightarrow> Inl e
      | Inr oldint \<Rightarrow>
          (let addon = map2 (\<lambda>oi r. of_int oi * r) oldint rfactor;
               raw = map2 (\<lambda>oi a. of_int oi + a) oldint (float_round addon)
           in case astype_int64 (Float64 raw) of
                Inl e \<Rightarrow> Inl e
              | Inr raw64 \<Rightarrow>
                  Inr (Int64 (if min_negative oldint then raw64 else clip_lower0 raw64))))"

text \<open>
  The loop over \<open>list(xdf)\<close>: the state is the frame and the position in the stream of
  deviates; a column that is not skipped consumes \<open>num\<close> deviates.
\<close>

fun randomize_loop ::
  "string set \<Rightarrow> (nat \<Rightarrow> rat) \<Rightarrow> rat \<Rightarrow> rat \<Rightarrow> nat \<Rightarrow> string list \<Rightarrow> dataframe \<Rightarrow> nat
     \<Rightarrow> exn + dataframe" where
  "randomize_loop skip z nmean nsdev num [] xdf pos = Inr xdf"
| "randomize_loop skip z nmean nsdev num (varname # vs) xdf pos =
     (if varname \<in> skip then randomize_loop skip z nmean nsdev num vs xdf pos
      else case getitem xdf varname of
             Inl e \<Rightarrow> Inl e
           | Inr old \<Rightarrow>
               (case randomize_series (normal z pos nmean nsdev num) old of
                  Inl e \<Rightarrow> Inl e
                | Inr new \<Rightarrow>
                    randomize_loop skip z nmean nsdev num vs
                      (setitem xdf varname new) (pos + num)))"

definition set_FLPDYR :: "dataframe \<Rightarrow> int \<Rightarrow> dataframe" where
  "set_FLPDYR xdf taxyear = setitem xdf ''FLPDYR'' (Int64 (replicate (nrows xdf) taxyear))"

definition nmean_of :: "int \<Rightarrow> rat" where
  "nmean_of taxyear = 1 + ANNUAL_DRIFT * of_int (taxyear - 2009)"

definition randomize_data ::
  "config \<Rightarrow> (int \<Rightarrow> nat \<Rightarrow> rat) \<Rightarrow> dataframe \<Rightarrow> int \<Rightarrow> int \<Rightarrow> exn + dataframe" where
  "randomize_data cfg gauss xdf taxyear rnseed =
     (let xdf1 = set_FLPDYR xdf taxyear;
          num = nrows xdf1;
          nmean = nmean_of taxyear;
          nsdev = NORM_STD_DEV
      in randomize_loop (SKIP_VARS cfg) (gauss rnseed) nmean nsdev num (names xdf1) xdf1 0)"

subsection \<open>\<open>constrain_data\<close>\<close>

definition and_then :: "exn + 'a \<Rightarrow> ('a \<Rightarrow> exn + 'b) \<Rightarrow> exn + 'b" where
  "and_then m f = (case m of Inl e \<Rightarrow> Inl e | Inr x \<Rightarrow> f x)"

text \<open>\<open>a + b\<close> and \<open>np.maximum(a, b)\<close> on two columns; a mixed pair is a float column.\<close>

fun series_add :: "series \<Rightarrow> series \<Rightarrow> series" where
  "series_add (Int64 a) (Int64 b) = Int64 (map2 (\<lambda>x y. wrap64 (x + y)) a b)"
| "series_add (Int64 a) (Float64 b) = Float64 (map2 (\<lambda>x y. of_int x + y) a b)"
| "series_add (Float64 a) (Int64 b) = Float64 (map2 (\<lambda>x y. x + of_int y) a b)"
| "series_add (Float64 a) (Float64 b) = Float64 (map2 (\<lambda>x y. x + y) a b)"

fun series_maximum :: "series \<Rightarrow> series \<Rightarrow> series" where
  "series_maximum (Int64 a) (Int64 b) = Int64 (map2 max a b)"
| "series_maximum (Int64 a) (Float64 b) = Float64 (map2 (\<lambda>x y. max (of_int x) y) a b)"
| "series_maximum (Float64 a) (Int64 b) = Float64 (map2 (\<lambda>x y. max x (of_int y)) a b)"
| "series_maximum (Float64 a) (Float64 b) = Float64 (map2 max a b)"

text \<open>\<open>xdf[tot] = xdf[a] + xdf[b]\<close> and \<open>xdf[c] = np.maximum(xdf[c], xdf[r])\<close>.\<close>

definition assign_sum :: "dataframe \<Rightarrow> string \<Rightarrow> string \<Rightarrow> string \<Rightarrow> exn + dataframe" where
  "assign_sum xdf tot a b =
     and_then (getitem xdf a) (\<lambda>sa.
     and_then (getitem xdf b) (\<lambda>sb.
     Inr (setitem xdf tot (series_add sa sb))))"

definition assign_maximum :: "dataframe \<Rightarrow> string \<Rightarrow> string \<Rightarrow> exn + dataframe" where
  "assign_maximum xdf c r =
     and_then (getitem xdf c) (\<lambda>sc.
     and_then (getitem xdf r) (\<lambda>sr.
     Inr (setitem xdf c (series_maximum sc sr))))"

definition constrain_data :: "config \<Rightarrow> dataframe \<Rightarrow> exn + dataframe" where
  "constrain_data cfg xdf =
     (if DEBUG cfg then Inr xdf
      else
        and_then (assign_sum xdf ''e00200'' ''e00200p'' ''e00200s'') (\<lambda>xdf.
        and_then (assign_sum xdf ''e00900'' ''e00900p'' ''e00900s'') (\<lambda>xdf.
        and_then (assign_sum xdf ''e02100'' ''e02100p'' ''e02100s'') (\<lambda>xdf.
        and_then (assign_maximum xdf ''e00600'' ''e00650'') (\<lambda>xdf.
        assign_maximum xdf ''e01500'' ''e01700'')))))"

subsection \<open>Sampling and \<open>main\<close>\<close>

fun take_rows :: "nat list \<Rightarrow> series \<Rightarrow> series" where
  "take_rows idxs (Int64 xs) = Int64 (map (\<lambda>i. xs ! i) idxs)"
| "take_rows idxs (Float64 xs) = Float64 (map (\<lambda>i. xs ! i) idxs)"

text \<open>
  \<open>xdf.sample(n=n, random_state=seed)\<close>, without replacement: pandas raises
  \<open>ValueError\<close> for a negative \<open>n\<close> and for an \<open>n\<close> larger than the number of rows;
  otherwise the result holds the rows at the drawn positions.
\<close>

definition sample ::
  "(int \<Rightarrow> nat \<Rightarrow> nat \<Rightarrow> nat list) \<Rightarrow> dataframe \<Rightarrow> int \<Rightarrow> int \<Rightarrow> exn + dataframe" where
  "sample choice xdf n random_state =
     (if n < 0 \<or> int (nrows xdf) < n then Inl ValueError
      else
        (let idxs = choice random_state (nrows xdf) (nat n)
         in Inr \<lparr>nrows = length idxs,
                 columns = map (\<lambda>p. (fst p, take_rows idxs (snd p))) (columns xdf)\<rparr>))"

text \<open>\<open>xdf[name] = values\<close> for a Python list: its length must be the number of rows.\<close>

definition setitem_list :: "dataframe \<Rightarrow> string \<Rightarrow> int list \<Rightarrow> exn + dataframe" where
  "setitem_list xdf name vals =
     (if length vals = nrows xdf then Inr (setitem xdf name (Int64 vals)) else Inl ValueError)"

datatype dropped = Dropped dataframe | AlreadyDropped string | Raised exn

fun drop_loop :: "string set \<Rightarrow> string list \<Rightarrow> dataframe \<Rightarrow> dropped" where
  "drop_loop usable [] xdf = Dropped xdf"
| "drop_loop usable (var # vs) xdf =
     (if var \<notin> usable then AlreadyDropped var
      else case drop_column xdf var of
             Inl e \<Rightarrow> Raised e
           | Inr xdf' \<Rightarrow> drop_loop usable vs xdf')"

text \<open>
  What a run leaves behind: the return code, the lines written to the error stream and
  the frame written to the output file, if any.
\<close>

record result =
  rcode :: int
  stderr :: "string list"
  written :: "dataframe option"

definition sample_stage ::
  "config \<Rightarrow> (int \<Rightarrow> nat \<Rightarrow> nat \<Rightarrow> nat list) \<Rightarrow> dataframe \<Rightarrow> int \<Rightarrow> int \<Rightarrow> exn + dataframe" where
  "sample_stage cfg choice xdf rnseed ssize =
     (if DEBUG cfg
      then setitem_list xdf ''RECID'' (map (\<lambda>rid. int rid + 1) [0..<nrows xdf])
      else and_then (sample choice xdf ssize rnseed) (\<lambda>xxdf.
           setitem_list xxdf ''RECID'' (map (\<lambda>rid. int rid + 1) [0..<nat ssize])))"

text \<open>The stages of \<open>main\<close> before the sampling: drop, randomize, constrain.\<close>

definition transform ::
  "config \<Rightarrow> (int \<Rightarrow> nat \<Rightarrow> rat) \<Rightarrow> dataframe \<Rightarrow> int \<Rightarrow> int \<Rightarrow> exn + dataframe" where
  "transform cfg gauss xdf taxyear rnseed =
     and_then (randomize_data cfg gauss xdf taxyear rnseed) (\<lambda>xdf. constrain_data cfg xdf)"

text \<open>\<open>puf\<close> is the content of \<open>puf.csv\<close>, \<open>None\<close> when the file does not exist.\<close>

definition main ::
  "config \<Rightarrow> (int \<Rightarrow> nat \<Rightarrow> rat) \<Rightarrow> (int \<Rightarrow> nat \<Rightarrow> nat \<Rightarrow> nat list) \<Rightarrow> dataframe option
     \<Rightarrow> int \<Rightarrow> int \<Rightarrow> int \<Rightarrow> exn + result" where
  "main cfg gauss choice puf taxyear rnseed ssize =
     (case puf of
        None \<Rightarrow>
          Inr \<lparr>rcode = 1,
               stderr = [''ERROR: puf.csv file not found in top-level directory''],
               written = None\<rparr>
      | Some xdf \<Rightarrow>
          (case drop_loop (USABLE_READ_VARS cfg) (DROP_VARS cfg) xdf of
             AlreadyDropped var \<Rightarrow>
               Inr \<lparr>rcode = 1,
                    stderr = [''ERROR: variable '' @ var @ '' already dropped''],
                    written = None\<rparr>
           | Raised e \<Rightarrow> Inl e
           | Dropped xdf \<Rightarrow>
               and_then (transform cfg gauss xdf taxyear rnseed) (\<lambda>xdf.
               and_then (sample_stage cfg choice xdf rnseed ssize) (\<lambda>xxdf.
               Inr \<lparr>rcode = 0, stderr = [], written = Some xxdf\<rparr>))))"

subsection \<open>The script: checks of the command-line arguments\<close>

function str_nat :: "nat \<Rightarrow> string" where
  "str_nat n =
     (if n < 10 then [''0123456789'' ! n]
      else str_nat (n div 10) @ [''0123456789'' ! (n mod 10)])"
  by pat_completeness auto
termination
  by (relation "measure id") auto

declare str_nat.simps [simp del]

definition str_int :: "int \<Rightarrow> string" where
  "str_int i = (if i < 0 then CHR ''-'' # str_nat (nat (- i)) else str_nat (nat i))"

text \<open>
  The three checks, each on the state of the error stream and of \<open>ARGS_ERROR\<close>.
\<close>

definition check_year :: "int \<Rightarrow> string list \<times> bool \<Rightarrow> string list \<times> bool" where
  "check_year YEAR st =
     (if YEAR < 2013 \<or> YEAR > MAX_YEAR
      then (let RSTR = ''[2013,'' @ str_int MAX_YEAR @ ''] range''
            in (fst st @ [''ERROR: YEAR '' @ str_int YEAR @ '' not in '' @ RSTR], True))
      else st)"

definition check_seed :: "int \<Rightarrow> string list \<times> bool \<Rightarrow> string list \<times> bool" where
  "check_seed SEED st =
     (if SEED < 1 \<or> SEED > MAX_SEED
      then (let RSTR = ''[1,'' @ str_int MAX_SEED @ ''] range''
            in (fst st @ [''ERROR: SEED '' @ str_int SEED @ '' not in '' @ RSTR], True))
      else st)"

definition check_size :: "int \<Rightarrow> string list \<times> bool \<Rightarrow> string list \<times> bool" where
  "check_size SIZE st =
     (if SIZE < 1 \<or> SIZE > MAX_SIZE
      then (let RSTR = ''[1,'' @ str_int MAX_SIZE @ ''] range''
            in (fst st @ [''ERROR: SIZE '' @ str_int SIZE @ '' not in '' @ RSTR], True))
      else st)"

text \<open>
  The block under \<open>if __name__ == '__main__'\<close>, after the parsing of the three integers;
  the result of \<open>main\<close> is the exit status.
\<close>

definition script ::
  "config \<Rightarrow> (int \<Rightarrow> nat \<Rightarrow> rat) \<Rightarrow> (int \<Rightarrow> nat \<Rightarrow> nat \<Rightarrow> nat list) \<Rightarrow> dataframe option
     \<Rightarrow> int \<Rightarrow> int \<Rightarrow> int \<Rightarrow> exn + result" where
  "script cfg gauss choice puf YEAR SEED SIZE =
     (let st = check_size SIZE (check_seed SEED (check_year YEAR ([], False)));
          ARGS_ERROR = snd st
      in if ARGS_ERROR
         then Inr \<lparr>rcode = 1,
                   stderr = fst st @ [''USAGE: python csv_in.py --help''],
                   written = None\<rparr>
         else main cfg gauss choice puf YEAR SEED SIZE)"

subsection \<open>The specification's words\<close>






subsection \<open>Example inputs\<close>


definition gauss_alt :: "int \<Rightarrow> nat \<Rightarrow> rat" where
  "gauss_alt seed k = (if even k then 1 / 2 else - 1 / 2)"

definition cfg_release :: config where
  "cfg_release =
     \<lparr>DEBUG = False,
      USABLE_READ_VARS =
        {''RECID'', ''MARS'', ''FLPDYR'', ''filer'', ''s006'', ''cmbtp'', ''nu05'', ''nu13'',
         ''elderly_dependent'', ''e09700'', ''e09800'', ''e09900'', ''e11200'',
         ''e00200'', ''e00200p'', ''e00200s'', ''e00900'', ''e00900p'', ''e00900s'',
         ''e02100'', ''e02100p'', ''e02100s'', ''e00600'', ''e00650'', ''e01500'', ''e01700''}\<rparr>"

text \<open>A sampler: the last \<open>k\<close> of the \<open>n\<close> rows, the last one first.\<close>

definition choice_last :: "int \<Rightarrow> nat \<Rightarrow> nat \<Rightarrow> nat list" where
  "choice_last seed n k = rev [n - k..<n]"




subsection \<open>The identities of the constraint repairer, row by row\<close>

text \<open>
  \<open>a + b\<close> in row \<open>i\<close>, in the arithmetic of the two columns: the sum of two \<open>int64\<close>
  values wraps around, any other sum is a float sum. \<open>sum_row\<close> says that the total column
  holds this sum in row \<open>i\<close>, \<open>dominates_row\<close> that a column is at least the related one.
\<close>

fun plus_cells :: "series \<Rightarrow> series \<Rightarrow> nat \<Rightarrow> rat" where
  "plus_cells (Int64 a) (Int64 b) i = of_int (wrap64 (a ! i + b ! i))"
| "plus_cells a b i = cell a i + cell b i"

definition constraint_sources :: "string list" where
  "constraint_sources =
     [''e00200p'', ''e00200s'', ''e00900p'', ''e00900s'', ''e02100p'', ''e02100s'',
      ''e00600'', ''e00650'', ''e01500'', ''e01700'']"

definition constraint_targets :: "string list" where
  "constraint_targets = [''e00200'', ''e00900'', ''e02100'', ''e00600'', ''e01500'']"




definition frame_constraints :: dataframe where
  "frame_constraints =
     \<lparr>nrows = 2,
      columns =
        [(''MARS'', Int64 [1, 2]),
         (''e00200'', Int64 [50, 70]), (''e00200p'', Int64 [10, 20]), (''e00200s'', Int64 [3, 4]),
         (''e00900'', Int64 [0, 0]), (''e00900p'', Int64 [- 5, 0]), (''e00900s'', Int64 [2, 0]),
         (''e02100'', Int64 [1, 1]), (''e02100p'', Int64 [0, 6]), (''e02100s'', Int64 [0, - 9]),
         (''e00600'', Int64 [10, 1]), (''e00650'', Int64 [3, 8]),
         (''e01500'', Int64 [0, 5]), (''e01700'', Int64 [4, 5])]\<rparr>"

definition frame_constraints_repaired :: dataframe where
  "frame_constraints_repaired =
     \<lparr>nrows = 2,
      columns =
        [(''MARS'', Int64 [1, 2]),
         (''e00200'', Int64 [13, 24]), (''e00200p'', Int64 [10, 20]), (''e00200s'', Int64 [3, 4]),
         (''e00900'', Int64 [- 3, 0]), (''e00900p'', Int64 [- 5, 0]), (''e00900s'', Int64 [2, 0]),
         (''e02100'', Int64 [0, - 3]), (''e02100p'', Int64 [0, 6]), (''e02100s'', Int64 [0, - 9]),
         (''e00600'', Int64 [10, 8]), (''e00650'', Int64 [3, 8]),
         (''e01500'', Int64 [4, 5]), (''e01700'', Int64 [4, 5])]\<rparr>"

subsection \<open>Example runs of \<open>main\<close>\<close>

text \<open>
  A run has failed when it raised, or returned a non-zero code and wrote no output file.
  \<open>puf_example\<close> is an input of three rows with every column that the drop set and the
  constraint repair name; the other three frames are what \<open>main\<close> makes of it for the
  year 2013, seed 1 and a sample of two rows.
\<close>

definition run_failed :: "exn + result \<Rightarrow> bool" where
  "run_failed r = (case r of Inl e \<Rightarrow> True | Inr res \<Rightarrow> rcode res \<noteq> 0 \<and> written res = None)"

definition puf_example :: dataframe where
  "puf_example =
     \<lparr>nrows = 3,
      columns =
        [(''RECID'', Int64 [11, 12, 13]), (''MARS'', Int64 [1, 2, 1]),
         (''FLPDYR'', Int64 [2009, 2009, 2009]),
         (''filer'', Int64 [1, 1, 1]), (''s006'', Float64 [100, 201 / 2, 300]),
         (''cmbtp'', Int64 [0, 0, 0]), (''nu05'', Int64 [0, 1, 0]), (''nu13'', Int64 [0, 1, 0]),
         (''elderly_dependent'', Int64 [0, 0, 0]),
         (''e09700'', Int64 [0, 0, 0]), (''e09800'', Int64 [0, 0, 0]),
         (''e09900'', Int64 [0, 0, 0]), (''e11200'', Int64 [0, 0, 0]),
         (''e00200'', Int64 [50, 70, 0]), (''e00200p'', Int64 [10, 20, 0]),
         (''e00200s'', Int64 [3, 4, 0]),
         (''e00900'', Int64 [0, 0, 0]), (''e00900p'', Int64 [- 5, 0, 0]),
         (''e00900s'', Int64 [2, 0, 0]),
         (''e02100'', Int64 [1, 1, 0]), (''e02100p'', Int64 [0, 6, 0]),
         (''e02100s'', Int64 [0, - 9, 0]),
         (''e00600'', Int64 [10, 1, 0]), (''e00650'', Int64 [3, 8, 0]),
         (''e01500'', Int64 [0, 5, 0]), (''e01700'', Int64 [4, 5, 0])]\<rparr>"



definition puf_example_written :: dataframe where
  "puf_example_written =
     \<lparr>nrows = 2,
      columns =
        [(''RECID'', Int64 [1, 2]), (''MARS'', Int64 [1, 2]),
         (''FLPDYR'', Int64 [2013, 2013]),
         (''e00200'', Int64 [0, 53]), (''e00200p'', Int64 [0, 45]),
         (''e00200s'', Int64 [0, 8]),
         (''e00900'', Int64 [0, 0]), (''e00900p'', Int64 [0, 0]),
         (''e00900s'', Int64 [0, 0]),
         (''e02100'', Int64 [0, - 5]), (''e02100p'', Int64 [0, 13]),
         (''e02100s'', Int64 [0, - 18]),
         (''e00600'', Int64 [0, 16]), (''e00650'', Int64 [0, 16]),
         (''e01500'', Int64 [0, 11]), (''e01700'', Int64 [0, 10])]\<rparr>"

section \<open>Properties\<close>

subsection \<open>Frames and numeric primitives\<close>

lemma getitem_setitem:
  "getitem (setitem xdf n s) m = (if m = n then Inr s else getitem xdf m)"
  by (simp add: getitem_def setitem_def update_conv')

lemma nrows_setitem: "nrows (setitem xdf n s) = nrows xdf"
  by (simp add: setitem_def)

lemma names_setitem:
  "names (setitem xdf n s) = (if n \<in> set (names xdf) then names xdf else names xdf @ [n])"
  by (simp add: names_def setitem_def update_keys)

lemma getitem_Inr_names: "getitem xdf c = Inr s \<Longrightarrow> c \<in> set (names xdf)"
  by (auto simp: getitem_def names_def split: option.splits dest: map_of_SomeD  intro: rev_image_eqI)








lemma randomize_loop_shape:
  "randomize_loop skip z m s num vs xdf pos = Inr xdf'
     \<Longrightarrow> nrows xdf' = nrows xdf \<and> names xdf' = names xdf"
proof (induction vs arbitrary: xdf pos)
  case Nil
  then show ?case by simp
next
  case (Cons v vs)
  show ?case
  proof (cases "v \<in> skip")
    case True
    with Cons show ?thesis by auto
  next
    case False
    with Cons.prems obtain old new where
      old: "getitem xdf v = Inr old" and
      new: "randomize_loop skip z m s num vs (setitem xdf v new) (pos + num) = Inr xdf'"
      by (auto split: sum.splits)
    from Cons.IH [OF new] getitem_Inr_names [OF old] show ?thesis
      by (simp add: nrows_setitem names_setitem)
  qed
qed








lemma randomize_data_shape:
  assumes "randomize_data cfg gauss xdf taxyear rnseed = Inr xdf'"
  shows "nrows xdf' = nrows xdf \<and> names xdf' = names (set_FLPDYR xdf taxyear)"
  using randomize_loop_shape [of "SKIP_VARS cfg" _ _ _ _ _ "set_FLPDYR xdf taxyear" 0 xdf'] assms
  by (simp add: randomize_data_def Let_def set_FLPDYR_def nrows_setitem)



subsection \<open>Claims about the randomizer\<close>

text \<open>
  The theorems about a randomized column \<open>c\<close> ask for \<open>c \<notin> SKIP_VARS cfg\<close> and for
  \<open>c \<noteq> FLPDYR\<close>. Outside debug mode the second follows from the first, since \<open>FLPDYR\<close>
  is on the skip list; it is there for a debug configuration whose \<open>USABLE_READ_VARS\<close>
  would lack \<open>FLPDYR\<close>, where line 71 has replaced the column before the loop reads it.
  A run of \<open>randomize_data\<close> that returns a frame is a run in which no cast left the
  \<open>int64\<close> range.
\<close>



















subsection \<open>Claims about the constraint repairer\<close>

text \<open>Where the sum of two \<open>int64\<close> values stays in range, it is the exact sum.\<close>

lemma wrap64_in_range: "in_int64 n \<Longrightarrow> wrap64 n = n"
  by (simp add: wrap64_def in_int64_def)

lemma plus_cells_exact:
  "in_int64 (a ! i + b ! i) \<Longrightarrow>
     plus_cells (Int64 a) (Int64 b) i = of_int (a ! i) + of_int (b ! i)"
  by (simp add: wrap64_in_range)



lemma assign_sum_Inr:
  "assign_sum xdf tot a b = Inr xdf' \<longleftrightarrow>
     (\<exists>sa sb. getitem xdf a = Inr sa \<and> getitem xdf b = Inr sb \<and>
        xdf' = setitem xdf tot (series_add sa sb))"
  by (auto simp: assign_sum_def and_then_def split: sum.splits)

lemma assign_maximum_Inr:
  "assign_maximum xdf c r = Inr xdf' \<longleftrightarrow>
     (\<exists>sc sr. getitem xdf c = Inr sc \<and> getitem xdf r = Inr sr \<and>
        xdf' = setitem xdf c (series_maximum sc sr))"
  by (auto simp: assign_maximum_def and_then_def split: sum.splits)

lemma and_then_Inr: "and_then m f = Inr y \<longleftrightarrow> (\<exists>x. m = Inr x \<and> f x = Inr y)"
  by (cases m) (simp_all add: and_then_def)

lemma constrain_data_ok:
  assumes "\<not> DEBUG cfg"
    and "getitem xdf ''e00200p'' = Inr p1" and "getitem xdf ''e00200s'' = Inr s1"
    and "getitem xdf ''e00900p'' = Inr p2" and "getitem xdf ''e00900s'' = Inr s2"
    and "getitem xdf ''e02100p'' = Inr p3" and "getitem xdf ''e02100s'' = Inr s3"
    and "getitem xdf ''e00600'' = Inr d1" and "getitem xdf ''e00650'' = Inr r1"
    and "getitem xdf ''e01500'' = Inr d2" and "getitem xdf ''e01700'' = Inr r2"
  shows "constrain_data cfg xdf =
           Inr (setitem (setitem (setitem (setitem (setitem xdf
                 ''e00200'' (series_add p1 s1))
                 ''e00900'' (series_add p2 s2))
                 ''e02100'' (series_add p3 s3))
                 ''e00600'' (series_maximum d1 r1))
                 ''e01500'' (series_maximum d2 r2))"
proof -
  let ?x1 = "setitem xdf ''e00200'' (series_add p1 s1)"
  let ?x2 = "setitem ?x1 ''e00900'' (series_add p2 s2)"
  let ?x3 = "setitem ?x2 ''e02100'' (series_add p3 s3)"
  let ?x4 = "setitem ?x3 ''e00600'' (series_maximum d1 r1)"
  have 1: "assign_sum xdf ''e00200'' ''e00200p'' ''e00200s'' = Inr ?x1"
    by (simp add: assign_sum_Inr assms)
  have 2: "assign_sum ?x1 ''e00900'' ''e00900p'' ''e00900s'' = Inr ?x2"
    by (simp add: assign_sum_Inr getitem_setitem assms)
  have 3: "assign_sum ?x2 ''e02100'' ''e02100p'' ''e02100s'' = Inr ?x3"
    by (simp add: assign_sum_Inr getitem_setitem assms)
  have 4: "assign_maximum ?x3 ''e00600'' ''e00650'' = Inr ?x4"
    by (simp add: assign_maximum_Inr getitem_setitem assms)
  have 5: "assign_maximum ?x4 ''e01500'' ''e01700'' =
             Inr (setitem ?x4 ''e01500'' (series_maximum d2 r2))"
    by (simp add: assign_maximum_Inr getitem_setitem assms)
  show ?thesis
    unfolding constrain_data_def using assms(1) by (simp add: and_then_def 1 2 3 4 5)
qed

lemma constrain_data_sources:
  assumes nd: "\<not> DEBUG cfg" and cd: "constrain_data cfg xdf = Inr xdf'"
  shows "\<exists>p1 s1 p2 s2 p3 s3 d1 r1 d2 r2.
        getitem xdf ''e00200p'' = Inr p1 \<and> getitem xdf ''e00200s'' = Inr s1 \<and>
        getitem xdf ''e00900p'' = Inr p2 \<and> getitem xdf ''e00900s'' = Inr s2 \<and>
        getitem xdf ''e02100p'' = Inr p3 \<and> getitem xdf ''e02100s'' = Inr s3 \<and>
        getitem xdf ''e00600'' = Inr d1 \<and> getitem xdf ''e00650'' = Inr r1 \<and>
        getitem xdf ''e01500'' = Inr d2 \<and> getitem xdf ''e01700'' = Inr r2"
proof -
  from nd cd obtain x1 x2 x3 x4 where
    1: "assign_sum xdf ''e00200'' ''e00200p'' ''e00200s'' = Inr x1" and
    2: "assign_sum x1 ''e00900'' ''e00900p'' ''e00900s'' = Inr x2" and
    3: "assign_sum x2 ''e02100'' ''e02100p'' ''e02100s'' = Inr x3" and
    4: "assign_maximum x3 ''e00600'' ''e00650'' = Inr x4" and
    5: "assign_maximum x4 ''e01500'' ''e01700'' = Inr xdf'"
    by (auto simp: constrain_data_def and_then_Inr)
  from 1 obtain p1 s1 where a1: "getitem xdf ''e00200p'' = Inr p1"
    "getitem xdf ''e00200s'' = Inr s1" and x1: "x1 = setitem xdf ''e00200'' (series_add p1 s1)"
    unfolding assign_sum_Inr by blast
  from 2 obtain p2 s2 where a2: "getitem xdf ''e00900p'' = Inr p2"
    "getitem xdf ''e00900s'' = Inr s2" and x2: "x2 = setitem x1 ''e00900'' (series_add p2 s2)"
    unfolding assign_sum_Inr x1 by (auto simp: getitem_setitem)
  from 3 obtain p3 s3 where a3: "getitem xdf ''e02100p'' = Inr p3"
    "getitem xdf ''e02100s'' = Inr s3" and x3: "x3 = setitem x2 ''e02100'' (series_add p3 s3)"
    unfolding assign_sum_Inr x2 x1 by (auto simp: getitem_setitem)
  from 4 obtain d1 r1 where a4: "getitem xdf ''e00600'' = Inr d1"
    "getitem xdf ''e00650'' = Inr r1" and x4: "x4 = setitem x3 ''e00600'' (series_maximum d1 r1)"
    unfolding assign_maximum_Inr x3 x2 x1 by (auto simp: getitem_setitem)
  from 5 obtain d2 r2 where a5: "getitem xdf ''e01500'' = Inr d2"
    "getitem xdf ''e01700'' = Inr r2"
    unfolding assign_maximum_Inr x4 x3 x2 x1 by (auto simp: getitem_setitem)
  from a1 a2 a3 a4 a5 show ?thesis by blast
qed

lemma frame_constraints_run:
  "constrain_data cfg_release frame_constraints = Inr frame_constraints_repaired"
  by code_simp


lemma cfg_release_not_debug: "\<not> DEBUG cfg_release"
  by (simp add: cfg_release_def)



text \<open>
  C10: \<open>constrain_data\<close> changes only \<open>e00200\<close>, \<open>e00900\<close>, \<open>e02100\<close>, \<open>e00600\<close> and
  \<open>e01500\<close>: every other column, the part columns and the dominated columns among them,
  holds what it held before, and in debug mode the frame is returned as it is.
\<close>

theorem constrain_data_frame:
  assumes cd: "constrain_data cfg xdf = Inr xdf'"
  shows "(DEBUG cfg \<longrightarrow> xdf' = xdf) \<and> nrows xdf' = nrows xdf \<and>
         (c \<notin> set constraint_targets \<longrightarrow> getitem xdf' c = getitem xdf c)"
proof (cases "DEBUG cfg")
  case True
  with cd show ?thesis by (simp add: constrain_data_def)
next
  case False
  from constrain_data_sources [OF False cd] obtain p1 s1 p2 s2 p3 s3 d1 r1 d2 r2 where g:
    "getitem xdf ''e00200p'' = Inr p1" "getitem xdf ''e00200s'' = Inr s1"
    "getitem xdf ''e00900p'' = Inr p2" "getitem xdf ''e00900s'' = Inr s2"
    "getitem xdf ''e02100p'' = Inr p3" "getitem xdf ''e02100s'' = Inr s3"
    "getitem xdf ''e00600'' = Inr d1" "getitem xdf ''e00650'' = Inr r1"
    "getitem xdf ''e01500'' = Inr d2" "getitem xdf ''e01700'' = Inr r2"
    by blast
  from constrain_data_ok [OF False g] cd False show ?thesis
    by (auto simp: getitem_setitem nrows_setitem constraint_targets_def)
qed

theorem constrain_data_frame_witness:
  "constrain_data cfg_release frame_constraints = Inr frame_constraints_repaired \<and>
   nrows frame_constraints_repaired = nrows frame_constraints \<and>
   ''e00200p'' \<notin> set constraint_targets \<and>
   getitem frame_constraints_repaired ''e00200p'' = getitem frame_constraints ''e00200p'' \<and>
   constrain_data (cfg_release\<lparr>DEBUG := True\<rparr>) frame_constraints = Inr frame_constraints"
proof -
  have t: "''e00200p'' \<notin> set constraint_targets"
    by (simp add: constraint_targets_def)
  have d: "constrain_data (cfg_release\<lparr>DEBUG := True\<rparr>) frame_constraints = Inr frame_constraints"
    by (simp add: constrain_data_def)
  from constrain_data_frame [OF frame_constraints_run, of "''e00200p''"] t
    constrain_data_frame [OF d, of "''e00200p''"] frame_constraints_run d
  show ?thesis by simp
qed

subsection \<open>Claims about the script\<close>

lemma str_int_MAX:
  "str_int MAX_YEAR = ''2023''" "str_int MAX_SEED = ''999999999''" "str_int MAX_SIZE = ''100000''"
  by (simp_all add: str_int_def str_nat.simps MAX_YEAR_def MAX_SEED_def MAX_SIZE_def)

text \<open>
  C8: the three arguments are checked one by one, \<open>YEAR\<close> against \<open>[2013, 2023]\<close>, \<open>SEED\<close>
  against \<open>[1, 999999999]\<close> and \<open>SIZE\<close> against \<open>[1, 100000]\<close>; each violation writes its
  own line, which names the argument and the range; when a check failed the usage line
  follows, the exit status is 1 and \<open>main\<close> is not called (nothing is written); when none
  failed the script is \<open>main\<close>.
\<close>

theorem argument_validation:
  "script cfg gauss choice puf YEAR SEED SIZE =
     (if 2013 \<le> YEAR \<and> YEAR \<le> 2023 \<and> 1 \<le> SEED \<and> SEED \<le> 999999999 \<and>
         1 \<le> SIZE \<and> SIZE \<le> 100000
      then main cfg gauss choice puf YEAR SEED SIZE
      else Inr \<lparr>rcode = 1,
                stderr =
                  (if YEAR < 2013 \<or> 2023 < YEAR
                   then [''ERROR: YEAR '' @ str_int YEAR @ '' not in [2013,2023] range'']
                   else []) @
                  (if SEED < 1 \<or> 999999999 < SEED
                   then [''ERROR: SEED '' @ str_int SEED @ '' not in [1,999999999] range'']
                   else []) @
                  (if SIZE < 1 \<or> 100000 < SIZE
                   then [''ERROR: SIZE '' @ str_int SIZE @ '' not in [1,100000] range'']
                   else []) @
                  [''USAGE: python csv_in.py --help''],
                written = None\<rparr>)"
proof -
  have y: "check_year YEAR st =
      (if YEAR < 2013 \<or> 2023 < YEAR
       then (fst st @ [''ERROR: YEAR '' @ str_int YEAR @ '' not in [2013,2023] range''], True)
       else st)" for st
    by (simp add: check_year_def str_int_MAX Let_def) (simp add: MAX_YEAR_def)
  have s: "check_seed SEED st =
      (if SEED < 1 \<or> 999999999 < SEED
       then (fst st @ [''ERROR: SEED '' @ str_int SEED @ '' not in [1,999999999] range''], True)
       else st)" for st
    by (simp add: check_seed_def str_int_MAX Let_def) (simp add: MAX_SEED_def)
  have z: "check_size SIZE st =
      (if SIZE < 1 \<or> 100000 < SIZE
       then (fst st @ [''ERROR: SIZE '' @ str_int SIZE @ '' not in [1,100000] range''], True)
       else st)" for st
    by (simp add: check_size_def str_int_MAX Let_def) (simp add: MAX_SIZE_def)
  show ?thesis
    unfolding script_def y s z Let_def
    by (cases "YEAR < 2013 \<or> 2023 < YEAR"; cases "SEED < 1 \<or> 999999999 < SEED";
        cases "SIZE < 1 \<or> 100000 < SIZE") (auto simp: not_le)
qed

theorem argument_validation_witness:
  "script cfg_release gauss_alt choice_last None 2012 0 5 =
     Inr \<lparr>rcode = 1,
          stderr = [''ERROR: YEAR 2012 not in [2013,2023] range'',
                    ''ERROR: SEED 0 not in [1,999999999] range'',
                    ''USAGE: python csv_in.py --help''],
          written = None\<rparr>"
proof -
  have "str_int 2012 = ''2012''" "str_int 0 = ''0''"
    by (simp_all add: str_int_def str_nat.simps)
  with argument_validation [of cfg_release gauss_alt choice_last None 2012 0 5]
  show ?thesis by simp
qed

subsection \<open>Claims about the pipeline\<close>

lemma names_drop_column:
  "drop_column xdf v = Inr xdf' \<Longrightarrow> set (names xdf') = set (names xdf) - {v} \<and> nrows xdf' = nrows xdf"
  by (cases "v \<in> set (names xdf)")
    (auto simp: drop_column_def names_def delete_keys simp del: set_map)

lemma getitem_drop_column:
  "drop_column xdf v = Inr xdf' \<Longrightarrow> c \<noteq> v \<Longrightarrow> getitem xdf' c = getitem xdf c"
  by (auto simp: drop_column_def getitem_def split: if_splits)

lemma list_all_delete: "list_all P al \<Longrightarrow> list_all P (AList.delete k al)"
  by (induction al) auto

lemma wf_drop_column: "drop_column xdf v = Inr xdf' \<Longrightarrow> wf_frame xdf \<Longrightarrow> wf_frame xdf'"
  by (cases "v \<in> set (names xdf)")
    (auto simp: drop_column_def wf_frame_def distinct_delete list_all_delete)

lemma drop_loop_Dropped:
  "drop_loop usable vs xdf = Dropped xdf' \<Longrightarrow>
     nrows xdf' = nrows xdf \<and> set (names xdf') = set (names xdf) - set vs \<and>
     (wf_frame xdf \<longrightarrow> wf_frame xdf')"
proof (induction vs arbitrary: xdf)
  case Nil
  then show ?case by simp
next
  case (Cons v vs)
  from Cons.prems obtain x1 where d: "drop_column xdf v = Inr x1"
    and r: "drop_loop usable vs x1 = Dropped xdf'"
    by (auto split: if_splits sum.splits)
  from Cons.IH [OF r] names_drop_column [OF d] wf_drop_column [OF d] show ?case
    by auto
qed

lemma drop_loop_failure:
  "v \<in> set vs \<Longrightarrow> v \<notin> usable \<or> v \<notin> set (names xdf) \<Longrightarrow>
     \<exists>w\<in>set vs. drop_loop usable vs xdf = AlreadyDropped w \<or>
                 drop_loop usable vs xdf = Raised (KeyError w)"
proof (induction vs arbitrary: xdf)
  case Nil
  then show ?case by simp
next
  case (Cons u vs)
  show ?case
  proof (cases "u \<in> usable \<and> u \<in> set (names xdf)")
    case False
    then show ?thesis by (auto simp: drop_column_def)
  next
    case True
    then obtain x1 where d: "drop_column xdf u = Inr x1"
      by (auto simp: drop_column_def)
    from True Cons.prems have v: "v \<in> set vs" by auto
    from Cons.prems names_drop_column [OF d]
    have "v \<notin> usable \<or> v \<notin> set (names x1)" by auto
    from Cons.IH [OF v this] True d show ?thesis by auto
  qed
qed






lemma puf_example_main:
  "main cfg_release gauss_alt choice_last (Some puf_example) 2013 1 2 =
     Inr \<lparr>rcode = 0, stderr = [], written = Some puf_example_written\<rparr>"
  by code_simp




lemma names_set_FLPDYR:
  "set (names (set_FLPDYR xdf taxyear)) = insert ''FLPDYR'' (set (names xdf))"
  by (auto simp: set_FLPDYR_def names_setitem)

text \<open>
  C9, as stated, fails for the skip set: \<open>DSI\<close> is on the skip list, is not a column of
  \<open>puf_example\<close> and is not in the recognised schema, and the run succeeds.
\<close>

theorem configuration_errors_counterexample:
  "''DSI'' \<in> SKIP_VARS cfg_release \<and> ''DSI'' \<notin> set (names puf_example) \<and>
   ''DSI'' \<notin> USABLE_READ_VARS cfg_release \<and>
   main cfg_release gauss_alt choice_last (Some puf_example) 2013 1 2 =
     Inr \<lparr>rcode = 0, stderr = [], written = Some puf_example_written\<rparr>"
proof (intro conjI)
  show "''DSI'' \<in> SKIP_VARS cfg_release"
    by (simp add: SKIP_VARS_def cfg_release_def)
  show "''DSI'' \<notin> set (names puf_example)"
    by (simp add: names_def puf_example_def)
  show "''DSI'' \<notin> USABLE_READ_VARS cfg_release"
    by (simp add: cfg_release_def)
  show "main cfg_release gauss_alt choice_last (Some puf_example) 2013 1 2 =
     Inr \<lparr>rcode = 0, stderr = [], written = Some puf_example_written\<rparr>"
    by (rule puf_example_main)
qed

text \<open>
  C9 (amended): a name of the drop set that is missing from the recognised schema
  \<open>USABLE_READ_VARS\<close> or from the dataset ends the run before any transformation, with
  the line \<open>ERROR: variable ... already dropped\<close> and the result 1, or with a
  \<open>KeyError\<close>, for that name or for another name of the drop set met before it; outside
  debug mode, a column that the constraint repair reads and the dataset lacks makes the
  run fail. Names of the skip set are not checked.
\<close>

theorem configuration_errors:
  "(v \<in> set (DROP_VARS cfg) \<and> (v \<notin> USABLE_READ_VARS cfg \<or> v \<notin> set (names xdf)) \<longrightarrow>
      (\<exists>w\<in>set (DROP_VARS cfg).
         main cfg gauss choice (Some xdf) taxyear rnseed ssize =
           Inr \<lparr>rcode = 1,
                stderr = [''ERROR: variable '' @ w @ '' already dropped''],
                written = None\<rparr> \<or>
         main cfg gauss choice (Some xdf) taxyear rnseed ssize = Inl (KeyError w))) \<and>
   (\<not> DEBUG cfg \<and> v \<in> set constraint_sources \<and> v \<notin> set (names xdf) \<longrightarrow>
      run_failed (main cfg gauss choice (Some xdf) taxyear rnseed ssize))"
proof (intro conjI impI)
  assume "v \<in> set (DROP_VARS cfg) \<and> (v \<notin> USABLE_READ_VARS cfg \<or> v \<notin> set (names xdf))"
  then obtain w where w: "w \<in> set (DROP_VARS cfg)" and
    d: "drop_loop (USABLE_READ_VARS cfg) (DROP_VARS cfg) xdf = AlreadyDropped w \<or>
        drop_loop (USABLE_READ_VARS cfg) (DROP_VARS cfg) xdf = Raised (KeyError w)"
    using drop_loop_failure [of v "DROP_VARS cfg" "USABLE_READ_VARS cfg" xdf] by blast
  from d have
    "main cfg gauss choice (Some xdf) taxyear rnseed ssize =
           Inr \<lparr>rcode = 1,
                stderr = [''ERROR: variable '' @ w @ '' already dropped''],
                written = None\<rparr> \<or>
     main cfg gauss choice (Some xdf) taxyear rnseed ssize = Inl (KeyError w)"
    by (auto simp: main_def)
  with w show "\<exists>w\<in>set (DROP_VARS cfg).
         main cfg gauss choice (Some xdf) taxyear rnseed ssize =
           Inr \<lparr>rcode = 1,
                stderr = [''ERROR: variable '' @ w @ '' already dropped''],
                written = None\<rparr> \<or>
         main cfg gauss choice (Some xdf) taxyear rnseed ssize = Inl (KeyError w)"
    by blast
next
  assume a: "\<not> DEBUG cfg \<and> v \<in> set constraint_sources \<and> v \<notin> set (names xdf)"
  show "run_failed (main cfg gauss choice (Some xdf) taxyear rnseed ssize)"
  proof (cases "drop_loop (USABLE_READ_VARS cfg) (DROP_VARS cfg) xdf")
    case (AlreadyDropped w)
    then show ?thesis by (simp add: main_def run_failed_def)
  next
    case (Raised e)
    then show ?thesis by (simp add: main_def run_failed_def)
  next
    case (Dropped x1)
    from drop_loop_Dropped [OF Dropped] a have v1: "v \<notin> set (names x1)" by simp
    have "\<exists>e. transform cfg gauss x1 taxyear rnseed = Inl e"
    proof (cases "transform cfg gauss x1 taxyear rnseed")
      case (Inl e)
      then show ?thesis by simp
    next
      case (Inr x3)
      then obtain x2 where rd: "randomize_data cfg gauss x1 taxyear rnseed = Inr x2"
        and cd: "constrain_data cfg x2 = Inr x3"
        by (auto simp: transform_def and_then_Inr)
      from a have "v \<noteq> ''FLPDYR''" by (auto simp: constraint_sources_def)
      with v1 randomize_data_shape [OF rd] have "v \<notin> set (names x2)"
        by (simp add: names_set_FLPDYR)
      moreover from constrain_data_sources [OF _ cd] a have "\<exists>s. getitem x2 v = Inr s"
        by (auto simp: constraint_sources_def)
      ultimately show ?thesis by (auto dest: getitem_Inr_names)
    qed
    with Dropped show ?thesis
      by (auto simp: main_def run_failed_def and_then_def)
  qed
qed

theorem configuration_errors_witness:
  "''s006'' \<in> set (DROP_VARS (cfg_release\<lparr>USABLE_READ_VARS := {''filer''}\<rparr>)) \<and>
   ''s006'' \<notin> USABLE_READ_VARS (cfg_release\<lparr>USABLE_READ_VARS := {''filer''}\<rparr>) \<and>
   main (cfg_release\<lparr>USABLE_READ_VARS := {''filer''}\<rparr>) gauss_alt choice_last
     (Some puf_example) 2013 1 2 =
     Inr \<lparr>rcode = 1, stderr = [''ERROR: variable s006 already dropped''], written = None\<rparr> \<and>
   run_failed (main (cfg_release\<lparr>USABLE_READ_VARS := {''filer''}\<rparr>) gauss_alt choice_last
     (Some puf_example) 2013 1 2) \<and>
   \<not> DEBUG cfg_release \<and> ''e01700'' \<in> set constraint_sources \<and>
   ''e01700'' \<notin> set (names (puf_example\<lparr>columns := butlast (columns puf_example)\<rparr>)) \<and>
   main cfg_release gauss_alt choice_last
     (Some (puf_example\<lparr>columns := butlast (columns puf_example)\<rparr>)) 2013 1 2 =
     Inl (KeyError ''e01700'') \<and>
   run_failed (main cfg_release gauss_alt choice_last
     (Some (puf_example\<lparr>columns := butlast (columns puf_example)\<rparr>)) 2013 1 2)"
proof -
  let ?cfg = "cfg_release\<lparr>USABLE_READ_VARS := {''filer''}\<rparr>"
  let ?puf = "puf_example\<lparr>columns := butlast (columns puf_example)\<rparr>"
  have a1: "''s006'' \<in> set (DROP_VARS ?cfg)"
    by (simp add: DROP_VARS_def cfg_release_def)
  have a2: "''s006'' \<notin> USABLE_READ_VARS ?cfg"
    by simp
  have m1: "main ?cfg gauss_alt choice_last (Some puf_example) 2013 1 2 =
     Inr \<lparr>rcode = 1, stderr = [''ERROR: variable s006 already dropped''], written = None\<rparr>"
    by code_simp
  have f1: "run_failed (main ?cfg gauss_alt choice_last (Some puf_example) 2013 1 2)"
    by (simp add: m1 run_failed_def)
  have b1: "''e01700'' \<in> set constraint_sources"
    by (simp add: constraint_sources_def)
  have b2: "''e01700'' \<notin> set (names ?puf)"
    by (simp add: names_def puf_example_def)
  have m2: "main cfg_release gauss_alt choice_last (Some ?puf) 2013 1 2 =
     Inl (KeyError ''e01700'')"
    by code_simp
  from configuration_errors [of "''e01700''" cfg_release ?puf gauss_alt choice_last 2013 1 2]
    cfg_release_not_debug b1 b2
  have f2: "run_failed (main cfg_release gauss_alt choice_last (Some ?puf) 2013 1 2)"
    by blast
  from a1 a2 m1 f1 cfg_release_not_debug b1 b2 m2 f2 show ?thesis
    by (intro conjI)
qed

end
